theory Spec2Isabelle
  imports Main "HOL-Library.Word"
begin

section \<open>Machine types\<close>

text \<open>
  \<open>size_t\<close> and pointers are 64-bit words (byte addresses), \<open>int32_t\<close> is a 32-bit word
  read with \<open>sint\<close>. A \<open>float *\<close> or \<open>int32_t *\<close> advanced by \<open>n\<close> elements moves by
  \<open>sizeof(float) * n\<close> bytes, modulo \<open>2 ^ 64\<close>.
\<close>

type_synonym size_t = "64 word"
type_synonym addr = "64 word"
type_synonym int32 = "32 word"

definition sizeof_float :: size_t where
  "sizeof_float = 4"

definition nullptr :: addr where
  "nullptr = 0"

definition MAP_FAILED :: addr where
  "MAP_FAILED = - 1"

definition float_ptr_add :: "addr \<Rightarrow> size_t \<Rightarrow> addr" where
  "float_ptr_add p n = p + sizeof_float * n"

text \<open>
  \<open>std::abs\<close> on \<open>int32_t\<close>: negation in two's complement (on \<open>INT_MIN\<close>, where C++
  leaves the result undefined, the negation wraps to \<open>INT_MIN\<close>).
\<close>

definition abs32 :: "int32 \<Rightarrow> int32" where
  "abs32 x = (if sint x < 0 then - x else x)"

section \<open>System calls\<close>

text \<open>
  The calls that acquire or release an operating-system resource are recorded, in order, in
  a trace: the stdio stream of \<open>fopen\<close>/\<open>fclose\<close>, the descriptor of \<open>open\<close>/\<open>close\<close>
  and the mapping of \<open>mmap\<close>/\<open>munmap\<close>. Only calls that succeeded in acquiring something
  are recorded as acquisitions.
\<close>

datatype syscall =
    Fopen string
  | Fclose
  | Open string int32
  | Close int32
  | Mmap addr size_t int32
  | Munmap addr size_t

fun is_fopen :: "syscall \<Rightarrow> bool" where
  "is_fopen (Fopen p) = True"
| "is_fopen c = False"

fun is_fclose :: "syscall \<Rightarrow> bool" where
  "is_fclose Fclose = True"
| "is_fclose c = False"

fun is_open :: "syscall \<Rightarrow> bool" where
  "is_open (Open p fd) = True"
| "is_open c = False"

fun is_close :: "syscall \<Rightarrow> bool" where
  "is_close (Close fd) = True"
| "is_close c = False"

fun is_mmap :: "syscall \<Rightarrow> bool" where
  "is_mmap (Mmap a n fd) = True"
| "is_mmap c = False"

fun is_munmap :: "syscall \<Rightarrow> bool" where
  "is_munmap (Munmap a n) = True"
| "is_munmap c = False"

definition count_calls :: "(syscall \<Rightarrow> bool) \<Rightarrow> syscall list \<Rightarrow> nat" where
  "count_calls P tr = length (filter P tr)"

text \<open>Resources still held at the end of a trace: acquisitions minus releases.\<close>

definition open_streams :: "syscall list \<Rightarrow> int" where
  "open_streams tr = int (count_calls is_fopen tr) - int (count_calls is_fclose tr)"

definition open_descriptors :: "syscall list \<Rightarrow> int" where
  "open_descriptors tr = int (count_calls is_open tr) - int (count_calls is_close tr)"

definition live_mappings :: "syscall list \<Rightarrow> int" where
  "live_mappings tr = int (count_calls is_mmap tr) - int (count_calls is_munmap tr)"

section \<open>Status\<close>

text \<open>
  Modelled from the spec: \<open>base::Status\<close> and the constructors of namespace
  \<open>base::error\<close> are declared in \<open>base/base.h\<close>, which is not among the sources.
  A status carries a kind and a human-readable message; it converts to \<open>true\<close> exactly
  when the kind is success. The kinds are those \<open>llama2.cpp\<close> constructs.
\<close>

datatype StatusCode =
    kSuccess
  | kPathNotValid
  | kModelParseError
  | kInternalError
  | kKeyHasExits

record Status =
  code :: StatusCode
  err_msg :: string

definition Success :: Status where
  "Success = \<lparr>code = kSuccess, err_msg = []\<rparr>"

definition PathNotValid :: "string \<Rightarrow> Status" where
  "PathNotValid msg = \<lparr>code = kPathNotValid, err_msg = msg\<rparr>"

definition ModelParseError :: "string \<Rightarrow> Status" where
  "ModelParseError msg = \<lparr>code = kModelParseError, err_msg = msg\<rparr>"

definition InternalError :: "string \<Rightarrow> Status" where
  "InternalError msg = \<lparr>code = kInternalError, err_msg = msg\<rparr>"

definition KeyHasExits :: "string \<Rightarrow> Status" where
  "KeyHasExits msg = \<lparr>code = kKeyHasExits, err_msg = msg\<rparr>"

definition status_ok :: "Status \<Rightarrow> bool" where
  "status_ok s = (code s = kSuccess)"

definition set_err_msg :: "Status \<Rightarrow> string \<Rightarrow> Status" where
  "set_err_msg s msg = s\<lparr>err_msg := msg\<rparr>"

definition get_err_msg :: "Status \<Rightarrow> string" where
  "get_err_msg s = err_msg s"

text \<open>
  What a call does: it returns, or a glog \<open>CHECK\<close> fails and the process is aborted
  (\<open>Fatal\<close>), or it writes outside the extent of a buffer, after which C++ promises
  nothing (\<open>Undefined\<close>).
\<close>

datatype 'a outcome = Returned 'a | Fatal | Undefined

section \<open>LLamaRawModelData\<close>

text \<open>
  The fields the member functions use. The struct is declared in \<open>model/llama2.h\<close>,
  which is not among the sources, and so are its default member initialisers: a freshly
  made object is taken to hold the values the destructor reads as nothing held
  (descriptor \<open>-1\<close>, null pointers) and size 0.
\<close>

record LLamaRawModelData =
  fd :: int32
  file_size :: size_t
  data :: addr
  weight_data :: addr

definition new_LLamaRawModelData :: LLamaRawModelData where
  "new_LLamaRawModelData =
     \<lparr>fd = - 1, file_size = 0, data = nullptr, weight_data = nullptr\<rparr>"

text \<open>The destructor: the object as it is left, and the calls made.\<close>

definition destroy_LLamaRawModelData ::
  "LLamaRawModelData \<Rightarrow> LLamaRawModelData \<times> syscall list" where
  "destroy_LLamaRawModelData r =
     (let (r1, tr1) =
            (if data r \<noteq> nullptr \<and> data r \<noteq> MAP_FAILED
             then (r\<lparr>data := nullptr\<rparr>, [Munmap (data r) (file_size r)])
             else (r, []));
          (r2, tr2) =
            (if fd r1 \<noteq> - 1
             then (r1\<lparr>fd := - 1\<rparr>, tr1 @ [Close (fd r1)])
             else (r1, tr1))
      in (r2, tr2))"

definition weight :: "LLamaRawModelData \<Rightarrow> size_t \<Rightarrow> addr" where
  "weight r offset = float_ptr_add (weight_data r) offset"

definition is_weight_valid :: "LLamaRawModelData \<Rightarrow> size_t \<Rightarrow> bool" where
  "is_weight_valid r peek =
     (if peek * sizeof_float < file_size r then True else False)"

section \<open>Tensors and the process heap\<close>

datatype DeviceType = kDeviceUnknown | kDeviceCPU | kDeviceCUDA

datatype DataType = kDataTypeUnknown | kDataTypeFp32 | kDataTypeInt32

definition DataTypeSize :: "DataType \<Rightarrow> int" where
  "DataTypeSize t = (case t of kDataTypeUnknown \<Rightarrow> 0 | kDataTypeFp32 \<Rightarrow> 4 | kDataTypeInt32 \<Rightarrow> 4)"

text \<open>
  Modelled from the spec: \<open>tensor::Tensor\<close>, \<open>base::Buffer\<close> and the CPU allocator are
  declared in headers that are not among the sources. A tensor is an element type, a shape
  and at most one buffer; copying a tensor shares the buffer. A buffer obtained from the
  allocator is a block of the process heap, named by a number and holding 4-byte cells (both
  element types used here are 4 bytes wide); a buffer over caller or file memory is the
  address it borrows. \<open>ptr<T>()\<close> is the null pointer when no buffer is bound.
\<close>

type_synonym cell = "32 word"

datatype buffer = HostBuffer nat | ExternalBuffer addr

record Tensor =
  data_type :: DataType
  dims :: "int32 list"
  buffer :: "buffer option"
  tensor_device :: DeviceType

record world =
  heap :: "nat \<rightharpoonup> cell list"
  next_buffer :: nat
  trace :: "syscall list"

definition empty_Tensor :: Tensor where
  "empty_Tensor =
     \<lparr>data_type = kDataTypeUnknown, dims = [], buffer = None, tensor_device = kDeviceUnknown\<rparr>"

definition new_Tensor :: "DataType \<Rightarrow> int32 list \<Rightarrow> Tensor" where
  "new_Tensor t ds = \<lparr>data_type = t, dims = ds, buffer = None, tensor_device = kDeviceUnknown\<rparr>"

definition tensor_size :: "Tensor \<Rightarrow> int" where
  "tensor_size t = prod_list (map sint (dims t))"

definition tensor_ptr :: "Tensor \<Rightarrow> buffer option" where
  "tensor_ptr t = buffer t"

definition set_device_type :: "Tensor \<Rightarrow> DeviceType \<Rightarrow> Tensor" where
  "set_device_type t d = t\<lparr>tensor_device := d\<rparr>"

section \<open>The environment\<close>

text \<open>
  What the code obtains from outside itself: the size of the header record
  (\<open>sizeof(LlamaModelConfig)\<close>, declared in a header that is not among the sources), the
  answers of the tokenizer library, of the file system and of \<open>mmap\<close>, and whether the
  allocator grants a request of a given number of bytes.
\<close>

text \<open>
  The header record, with the fields the code reads (the record of the file format has
  further hyperparameters, which \<open>llama2.cpp\<close> never touches).
\<close>

record LlamaModelConfig =
  dim :: int32
  seq_len :: int32
  vocab_size :: int32

record env =
  sizeof_LlamaModelConfig :: size_t
  sentencepiece_Load :: "string \<Rightarrow> bool"
  GetPieceSize :: "string \<Rightarrow> int32"
  fopen_ok :: "string \<Rightarrow> bool"
  fread_config :: "string \<Rightarrow> bool \<times> LlamaModelConfig"
  ftell_end :: "string \<Rightarrow> size_t"
  open_result :: "string \<Rightarrow> int32"
  mmap_result :: "size_t \<Rightarrow> int32 \<Rightarrow> addr"
  cpu_alloc :: "int \<Rightarrow> bool"

text \<open>
  Modelled from the spec: \<open>Tensor::allocate\<close>. It binds a buffer of
  \<open>product(shape) * sizeof(dtype)\<close> bytes, fails when a buffer is already bound or the
  allocator cannot satisfy the request, and returns whether it succeeded. The new block
  is filled with zero cells here; in C++ its contents are indeterminate.
\<close>

definition allocate :: "env \<Rightarrow> Tensor \<Rightarrow> world \<Rightarrow> bool \<times> Tensor \<times> world" where
  "allocate e t w =
     (if buffer t \<noteq> None then (False, t, w)
      else if \<not> cpu_alloc e (tensor_size t * DataTypeSize (data_type t)) then (False, t, w)
      else (True,
            t\<lparr>buffer := Some (HostBuffer (next_buffer w))\<rparr>,
            w\<lparr>heap := (heap w)(next_buffer w \<mapsto> replicate (nat (tensor_size t)) 0),
              next_buffer := Suc (next_buffer w)\<rparr>))"

section \<open>EmbeddingLayer\<close>

text \<open>
  Modelled from the spec: \<open>op::EmbeddingLayer\<close> is declared in \<open>op/embedding_layer.h\<close>,
  which is not among the sources. The layer has an embedding dimension, a maximum sequence
  length, a vocabulary size and slot arrays for weights, inputs and outputs whose arity is
  declared with \<open>reset_*_size\<close>. Binding a slot outside the declared arity is a broken
  internal contract: the setters return \<open>None\<close> there, which the callers turn into
  \<open>Fatal\<close>.
\<close>

record EmbeddingLayer =
  emb_dim :: int32
  emb_seq_len :: int32
  emb_vocab_size :: int32
  weights :: "Tensor list"
  inputs :: "Tensor list"
  outputs :: "Tensor list"

definition new_EmbeddingLayer :: "int32 \<Rightarrow> int32 \<Rightarrow> int32 \<Rightarrow> EmbeddingLayer" where
  "new_EmbeddingLayer d s v =
     \<lparr>emb_dim = d, emb_seq_len = s, emb_vocab_size = v, weights = [], inputs = [], outputs = []\<rparr>"

definition resize :: "Tensor list \<Rightarrow> nat \<Rightarrow> Tensor list" where
  "resize xs n = take n xs @ replicate (n - length xs) empty_Tensor"

definition reset_weight_size :: "EmbeddingLayer \<Rightarrow> nat \<Rightarrow> EmbeddingLayer" where
  "reset_weight_size l n = l\<lparr>weights := resize (weights l) n\<rparr>"

definition reset_input_size :: "EmbeddingLayer \<Rightarrow> nat \<Rightarrow> EmbeddingLayer" where
  "reset_input_size l n = l\<lparr>inputs := resize (inputs l) n\<rparr>"

definition reset_output_size :: "EmbeddingLayer \<Rightarrow> nat \<Rightarrow> EmbeddingLayer" where
  "reset_output_size l n = l\<lparr>outputs := resize (outputs l) n\<rparr>"

definition set_weight ::
  "EmbeddingLayer \<Rightarrow> nat \<Rightarrow> int32 list \<Rightarrow> addr \<Rightarrow> EmbeddingLayer option" where
  "set_weight l idx ds p =
     (if idx < length (weights l)
      then Some (l\<lparr>weights := (weights l)
                  [idx := (new_Tensor kDataTypeFp32 ds)\<lparr>buffer := Some (ExternalBuffer p)\<rparr>]\<rparr>)
      else None)"

definition set_weight_device_type ::
  "EmbeddingLayer \<Rightarrow> nat \<Rightarrow> DeviceType \<Rightarrow> EmbeddingLayer option" where
  "set_weight_device_type l idx d =
     (if idx < length (weights l)
      then Some (l\<lparr>weights := (weights l)[idx := set_device_type (weights l ! idx) d]\<rparr>)
      else None)"

definition set_input :: "EmbeddingLayer \<Rightarrow> nat \<Rightarrow> Tensor \<Rightarrow> EmbeddingLayer option" where
  "set_input l idx t =
     (if idx < length (inputs l) then Some (l\<lparr>inputs := (inputs l)[idx := t]\<rparr>) else None)"

definition set_output :: "EmbeddingLayer \<Rightarrow> nat \<Rightarrow> Tensor \<Rightarrow> EmbeddingLayer option" where
  "set_output l idx t =
     (if idx < length (outputs l) then Some (l\<lparr>outputs := (outputs l)[idx := t]\<rparr>) else None)"

text \<open>
  \<open>EmbeddingLayer::forward\<close> itself is a parameter of the model: any function from the
  layer and the world to a status, the layer and the world (or to an abort).
\<close>

type_synonym layer_forward =
  "EmbeddingLayer \<Rightarrow> world \<Rightarrow> (Status \<times> EmbeddingLayer \<times> world) outcome"

section \<open>LLama2Model\<close>

datatype ModelBufferIdx = kInputTokens | kInputEmbeddings

text \<open>
  \<open>int(buffer_idx)\<close> and \<open>std::to_string\<close>, used only in the message of
  \<open>insert_buffer\<close>. The enumerators are numbered in the order of their declaration.
\<close>

definition ModelBufferIdx_int :: "ModelBufferIdx \<Rightarrow> nat" where
  "ModelBufferIdx_int k = (case k of kInputTokens \<Rightarrow> 0 | kInputEmbeddings \<Rightarrow> 1)"

fun to_string :: "nat \<Rightarrow> string" where
  "to_string n =
     (if n < 10 then [''0123456789'' ! n]
      else to_string (n div 10) @ [''0123456789'' ! (n mod 10)])"

declare to_string.simps [simp del]

record EncodeLayer =
  has_bos :: bool
  has_eos :: bool
  spe :: string

text \<open>
  The members of the class; member \<open>x_\<close> of the source is field \<open>m_x\<close> here. The
  constructor stores the two paths; the other members start empty (null pointers, an empty
  registry, vocabulary size 0, no device).
\<close>

record LLama2Model =
  m_token_path :: string
  m_model_path :: string
  m_vocab_size :: int32
  m_device_type :: DeviceType
  m_encode_layer :: "EncodeLayer option"
  m_config :: "LlamaModelConfig option"
  m_raw_model_data :: "LLamaRawModelData option"
  m_embedding_layer :: "EmbeddingLayer option"
  m_buffers :: "ModelBufferIdx \<rightharpoonup> Tensor"

definition new_LLama2Model :: "string \<Rightarrow> string \<Rightarrow> LLama2Model" where
  "new_LLama2Model token_path model_path =
     \<lparr>m_token_path = token_path, m_model_path = model_path, m_vocab_size = 0,
      m_device_type = kDeviceUnknown, m_encode_layer = None, m_config = None,
      m_raw_model_data = None, m_embedding_layer = None, m_buffers = Map.empty\<rparr>"

definition insert_buffer ::
  "LLama2Model \<Rightarrow> ModelBufferIdx \<Rightarrow> Tensor \<Rightarrow> Status \<times> LLama2Model" where
  "insert_buffer m buffer_idx tensor =
     (if m_buffers m buffer_idx \<noteq> None
      then (KeyHasExits (to_string (ModelBufferIdx_int buffer_idx) @ '' has exits in the buffers''),
            m)
      else (Success, m\<lparr>m_buffers := (m_buffers m)(buffer_idx \<mapsto> tensor)\<rparr>))"

definition get_buffer :: "LLama2Model \<Rightarrow> ModelBufferIdx \<Rightarrow> Tensor outcome" where
  "get_buffer m buffer_idx =
     (case m_buffers m buffer_idx of None \<Rightarrow> Fatal | Some t \<Rightarrow> Returned t)"

text \<open>
  \<open>create_embedding_layer\<close>, called where \<open>config_\<close> and \<open>raw_model_data_\<close> are set
  (the arguments \<open>c\<close> and \<open>r\<close>). The result is the pointer: \<open>new\<close> does not return null,
  and \<open>None\<close> stands for a setter refusing its slot.
\<close>

definition create_embedding_layer ::
  "LLama2Model \<Rightarrow> LlamaModelConfig \<Rightarrow> LLamaRawModelData \<Rightarrow> EmbeddingLayer option" where
  "create_embedding_layer m c r =
     (let embedding_layer = new_EmbeddingLayer (dim c) (seq_len c) (abs32 (vocab_size c));
          weight_embedding = weight r 0;
          l1 = reset_weight_size embedding_layer 1;
          l2 = reset_input_size l1 2;
          l3 = reset_output_size l2 1
      in case set_weight l3 0 [abs32 (m_vocab_size m), dim c] weight_embedding of
           None \<Rightarrow> None
         | Some l4 \<Rightarrow> set_weight_device_type l4 0 (m_device_type m))"

text \<open>
  Assigning a new object to the \<open>unique_ptr\<close> member \<open>raw_model_data_\<close> destroys the
  object it held before, if any: the calls of that object's destructor.
\<close>

definition release_raw_model_data :: "LLamaRawModelData option \<Rightarrow> syscall list" where
  "release_raw_model_data old =
     (case old of None \<Rightarrow> [] | Some r \<Rightarrow> snd (destroy_LLamaRawModelData r))"

definition read_model_file ::
  "env \<Rightarrow> LLama2Model \<Rightarrow> world \<Rightarrow> Status \<times> LLama2Model \<times> world" where
  "read_model_file e m w =
     (if \<not> fopen_ok e (m_model_path m)
      then (PathNotValid ''Failed to open the file. The path may be invalid.'', m, w)
      else
        let w1 = w\<lparr>trace := trace w @ [Fopen (m_model_path m)]\<rparr>;
            (read_ok, c) = fread_config e (m_model_path m);
            m1 = m\<lparr>m_config := Some c\<rparr>
        in
        if \<not> read_ok
        then (ModelParseError
                ''Failed to retrieve the configuration information from the model file.'',
              m1, w1)
        else if abs32 (vocab_size c) \<noteq> m_vocab_size m1
        then (ModelParseError
                ''Vocabulary size mismatch between the model file and the token list.'',
              m1, w1)
        else
          let r1 = new_LLamaRawModelData\<lparr>file_size := ftell_end e (m_model_path m1)\<rparr>;
              w2 = w1\<lparr>trace := trace w1 @ release_raw_model_data (m_raw_model_data m1) @
                                  [Fclose]\<rparr>;
              fd0 = open_result e (m_model_path m1)
          in
          if fd0 = - 1
          then (PathNotValid (''Failed to open the weight file '' @ m_model_path m1 @
                              '' may be the path does not exist!''),
                m1\<lparr>m_raw_model_data := Some r1\<rparr>, w2)
          else
            let w3 = w2\<lparr>trace := trace w2 @ [Open (m_model_path m1) fd0]\<rparr>;
                r2 = r1\<lparr>fd := fd0\<rparr>;
                p = mmap_result e (file_size r2) (fd r2);
                r3 = r2\<lparr>data := p\<rparr>;
                w4 = (if p = MAP_FAILED then w3
                      else w3\<lparr>trace := trace w3 @ [Mmap p (file_size r2) (fd r2)]\<rparr>)
            in
            if data r3 = MAP_FAILED \<or> data r3 = nullptr
            then (ModelParseError (''Failed to map the weight file '' @ m_model_path m1 @
                                   '' into memory.''),
                  m1\<lparr>m_raw_model_data := Some r3\<rparr>, w4)
            else
              let r4 = r3\<lparr>weight_data :=
                          float_ptr_add (data r3) (sizeof_LlamaModelConfig e div sizeof_float)\<rparr>;
                  m2 = m1\<lparr>m_raw_model_data := Some r4\<rparr>
              in
              if m_raw_model_data m2 = None
              then (ModelParseError (''Failed to map the weight file '' @ m_model_path m1 @
                      '' into memory, the pointer to weight start address is null''),
                    m2, w4)
              else
                (case create_embedding_layer m2 c r4 of
                   None \<Rightarrow> (InternalError ''Create the embedding layer failed!'', m2, w4)
                 | Some embedding_layer \<Rightarrow>
                     (Success, m2\<lparr>m_embedding_layer := Some embedding_layer\<rparr>, w4)))"

text \<open>\<open>init_mem\<close>; each \<open>CHECK\<close> that fails aborts the process.\<close>

definition init_mem :: "env \<Rightarrow> LLama2Model \<Rightarrow> world \<Rightarrow> (LLama2Model \<times> world) outcome" where
  "init_mem e m w =
     (case m_config m of
        None \<Rightarrow> Returned (m, w)
      | Some c \<Rightarrow>
          if m_device_type m \<noteq> kDeviceCPU then Fatal
          else
            let max_seq_len = seq_len c;
                input_tokens = new_Tensor kDataTypeInt32 [max_seq_len];
                input_embeddings = new_Tensor kDataTypeFp32 [max_seq_len, dim c];
                (ok1, input_tokens1, w1) = allocate e input_tokens w;
                (ok2, input_embeddings1, w2) = allocate e input_embeddings w1;
                (s1, m1) = insert_buffer m kInputTokens input_tokens1
            in
            if \<not> status_ok s1 then Fatal
            else
              let (s2, m2) = insert_buffer m1 kInputEmbeddings input_embeddings1
              in if \<not> status_ok s2 then Fatal else Returned (m2, w2))"

definition init ::
  "env \<Rightarrow> LLama2Model \<Rightarrow> world \<Rightarrow> DeviceType \<Rightarrow> (Status \<times> LLama2Model \<times> world) outcome" where
  "init e m w device_type =
     (if m_token_path m = [] then Returned (PathNotValid (m_token_path m), m, w)
      else if \<not> sentencepiece_Load e (m_token_path m)
      then Returned (PathNotValid (m_token_path m), m, w)
      else
        let m1 = m\<lparr>m_vocab_size := GetPieceSize e (m_token_path m)\<rparr>
        in
        if sint (m_vocab_size m1) \<le> 0
        then Returned (ModelParseError ''The vocab size param read error from the model file!'',
                       m1, w)
        else
          let m2 = m1\<lparr>m_device_type := device_type\<rparr>;
              m3 = m2\<lparr>m_encode_layer :=
                        Some \<lparr>has_bos = True, has_eos = False, spe = m_token_path m\<rparr>\<rparr>;
              (read_status, m4, w1) = read_model_file e m3 w
          in
          if \<not> status_ok read_status then Returned (read_status, m4, w1)
          else
            (case init_mem e m4 w1 of
               Fatal \<Rightarrow> Fatal
             | Undefined \<Rightarrow> Undefined
             | Returned (m5, w2) \<Rightarrow> Returned (Success, m5, w2)))"

text \<open>
  The loop of \<open>forward\<close> that stores the tokens through \<open>input_tokens_ptr\<close>: cell \<open>i\<close>
  of the block receives the token and the pointer moves on. A store at or beyond the end
  of the block is outside the buffer: \<open>None\<close>.
\<close>

fun write_cells :: "cell list \<Rightarrow> nat \<Rightarrow> int32 list \<Rightarrow> cell list option" where
  "write_cells cells i [] = Some cells"
| "write_cells cells i (token # tokens) =
     (if i < length cells then write_cells (cells[i := token]) (Suc i) tokens else None)"

text \<open>
  The same loop on the world. The pointer of a tensor over borrowed memory, or into a
  block that is not live, addresses nothing the model holds: the stores are outside every
  buffer as well.
\<close>

definition write_tokens :: "world \<Rightarrow> buffer \<Rightarrow> int32 list \<Rightarrow> world option" where
  "write_tokens w p tokens =
     (case p of
        ExternalBuffer a \<Rightarrow> (if tokens = [] then Some w else None)
      | HostBuffer b \<Rightarrow>
          (case heap w b of
             None \<Rightarrow> (if tokens = [] then Some w else None)
           | Some cells \<Rightarrow>
               (case write_cells cells 0 tokens of
                  None \<Rightarrow> None
                | Some cells1 \<Rightarrow> Some (w\<lparr>heap := (heap w)(b \<mapsto> cells1)\<rparr>))))"

definition forward ::
  "layer_forward \<Rightarrow> LLama2Model \<Rightarrow> world \<Rightarrow> int32 list \<Rightarrow> int32 \<Rightarrow>
   (Status \<times> LLama2Model \<times> world) outcome" where
  "forward layer_fwd m w tokens start_pos =
     (case get_buffer m kInputTokens of
        Fatal \<Rightarrow> Fatal
      | Undefined \<Rightarrow> Undefined
      | Returned input_tokens \<Rightarrow>
     (case get_buffer m kInputEmbeddings of
        Fatal \<Rightarrow> Fatal
      | Undefined \<Rightarrow> Undefined
      | Returned input_embeddings \<Rightarrow>
     (case tensor_ptr input_tokens of
        None \<Rightarrow>
          Returned (InternalError ''Can't get the input token pointer in the forward function.'',
                    m, w)
      | Some input_tokens_ptr \<Rightarrow>
     (case write_tokens w input_tokens_ptr tokens of
        None \<Rightarrow> Undefined
      | Some w1 \<Rightarrow>
          let input_token_num = new_Tensor kDataTypeInt32 [of_nat (length tokens)]
          in
     (case m_embedding_layer m of
        None \<Rightarrow>
          Returned (InternalError ''Create embedding layer failed in the init stage.'', m, w1)
      | Some l \<Rightarrow>
     (case set_input l 0 input_tokens of None \<Rightarrow> Fatal | Some l1 \<Rightarrow>
     (case set_input l1 1 input_token_num of None \<Rightarrow> Fatal | Some l2 \<Rightarrow>
     (case set_output l2 0 input_embeddings of None \<Rightarrow> Fatal | Some l3 \<Rightarrow>
     (case layer_fwd l3 w1 of
        Fatal \<Rightarrow> Fatal
      | Undefined \<Rightarrow> Undefined
      | Returned (embedding_status, l4, w2) \<Rightarrow>
          let m1 = m\<lparr>m_embedding_layer := Some l4\<rparr>
          in
          if \<not> status_ok embedding_status
          then Returned (set_err_msg embedding_status
                           (''The embedding layer forward failed: '' @
                            get_err_msg embedding_status),
                         m1, w2)
          else Returned (Success, m1, w2))))))))))"

section \<open>Reading an outcome\<close>

fun outcome_status :: "(Status \<times> 'm \<times> 'w) outcome \<Rightarrow> Status option" where
  "outcome_status (Returned (s, m, w)) = Some s"
| "outcome_status Fatal = None"
| "outcome_status Undefined = None"

fun outcome_model :: "(Status \<times> 'm \<times> 'w) outcome \<Rightarrow> 'm option" where
  "outcome_model (Returned (s, m, w)) = Some m"
| "outcome_model Fatal = None"
| "outcome_model Undefined = None"

fun outcome_world :: "(Status \<times> 'm \<times> 'w) outcome \<Rightarrow> 'w option" where
  "outcome_world (Returned (s, m, w)) = Some w"
| "outcome_world Fatal = None"
| "outcome_world Undefined = None"

section \<open>A concrete model file and environment\<close>

text \<open>
  The synthetic model file of the end-to-end scenario: a 28-byte header with
  \<open>dim = 4\<close>, \<open>seq_len = 8\<close>, \<open>vocab_size = 10\<close>, followed by 40 floats (188 bytes in
  all), a tokenizer with 10 pieces, descriptor 3, a mapping at address 4096, and an
  allocator that grants every request. The second environment differs in the header's
  \<open>vocab_size\<close> only (5 instead of 10).
\<close>

definition example_config :: LlamaModelConfig where
  "example_config = \<lparr>dim = 4, seq_len = 8, vocab_size = 10\<rparr>"

definition example_env :: env where
  "example_env =
     \<lparr>sizeof_LlamaModelConfig = 28,
      sentencepiece_Load = (\<lambda>p. True),
      GetPieceSize = (\<lambda>p. 10),
      fopen_ok = (\<lambda>p. True),
      fread_config = (\<lambda>p. (True, example_config)),
      ftell_end = (\<lambda>p. 188),
      open_result = (\<lambda>p. 3),
      mmap_result = (\<lambda>n d. 4096),
      cpu_alloc = (\<lambda>n. True)\<rparr>"

definition mismatch_env :: env where
  "mismatch_env =
     example_env\<lparr>fread_config := (\<lambda>p. (True, example_config\<lparr>vocab_size := 5\<rparr>))\<rparr>"

definition example_world :: world where
  "example_world = \<lparr>heap = Map.empty, next_buffer = 0, trace = []\<rparr>"

definition example_model :: LLama2Model where
  "example_model = new_LLama2Model ''tokenizer.model'' ''stories.bin''"

definition ok_layer_forward :: layer_forward where
  "ok_layer_forward l w = Returned (Success, l, w)"

definition failing_layer_forward :: layer_forward where
  "failing_layer_forward l w = Returned (InternalError ''token id out of range'', l, w)"

text \<open>
  The runtime after \<open>read_model_file\<close> has succeeded on that file, and after
  \<open>init_mem\<close> has registered the two activation buffers (blocks 0 and 1 of the heap).
\<close>

definition example_layer :: EmbeddingLayer where
  "example_layer =
     \<lparr>emb_dim = 4, emb_seq_len = 8, emb_vocab_size = 10,
      weights = [\<lparr>data_type = kDataTypeFp32, dims = [10, 4],
                  buffer = Some (ExternalBuffer 4124), tensor_device = kDeviceCPU\<rparr>],
      inputs = [empty_Tensor, empty_Tensor],
      outputs = [empty_Tensor]\<rparr>"

definition loaded_model :: LLama2Model where
  "loaded_model =
     \<lparr>m_token_path = ''tokenizer.model'', m_model_path = ''stories.bin'', m_vocab_size = 10,
      m_device_type = kDeviceCPU,
      m_encode_layer = Some \<lparr>has_bos = True, has_eos = False, spe = ''tokenizer.model''\<rparr>,
      m_config = Some example_config,
      m_raw_model_data = Some \<lparr>fd = 3, file_size = 188, data = 4096, weight_data = 4124\<rparr>,
      m_embedding_layer = Some example_layer,
      m_buffers = Map.empty\<rparr>"

definition loaded_world :: world where
  "loaded_world =
     \<lparr>heap = Map.empty, next_buffer = 0,
      trace = [Fopen ''stories.bin'', Fclose, Open ''stories.bin'' 3, Mmap 4096 188 3]\<rparr>"

definition example_input_tokens :: Tensor where
  "example_input_tokens =
     \<lparr>data_type = kDataTypeInt32, dims = [8], buffer = Some (HostBuffer 0),
      tensor_device = kDeviceUnknown\<rparr>"

definition example_input_embeddings :: Tensor where
  "example_input_embeddings =
     \<lparr>data_type = kDataTypeFp32, dims = [8, 4], buffer = Some (HostBuffer 1),
      tensor_device = kDeviceUnknown\<rparr>"

definition ready_model :: LLama2Model where
  "ready_model =
     loaded_model\<lparr>m_buffers := [kInputTokens \<mapsto> example_input_tokens,
                                kInputEmbeddings \<mapsto> example_input_embeddings]\<rparr>"

definition ready_world :: world where
  "ready_world =
     loaded_world\<lparr>heap := [0 \<mapsto> replicate 8 0, 1 \<mapsto> replicate 32 0], next_buffer := 2\<rparr>"

text \<open>
  The same file with an allocator that refuses every request: \<open>init_mem\<close> registers the
  two tensors without memory.
\<close>

definition refusing_env :: env where
  "refusing_env = example_env\<lparr>cpu_alloc := (\<lambda>n. False)\<rparr>"

definition unallocated_model :: LLama2Model where
  "unallocated_model =
     loaded_model\<lparr>m_buffers := [kInputTokens \<mapsto> new_Tensor kDataTypeInt32 [8],
                                 kInputEmbeddings \<mapsto> new_Tensor kDataTypeFp32 [8, 4]]\<rparr>"

section \<open>Unfolding sets and auxiliary facts\<close>

lemmas status_defs =
  Success_def PathNotValid_def ModelParseError_def InternalError_def KeyHasExits_def
  status_ok_def set_err_msg_def get_err_msg_def

lemmas layer_defs =
  new_EmbeddingLayer_def resize_def reset_weight_size_def reset_input_size_def
  reset_output_size_def set_weight_def set_weight_device_type_def set_input_def
  set_output_def new_Tensor_def empty_Tensor_def set_device_type_def

lemmas example_defs =
  example_config_def example_env_def mismatch_env_def example_world_def example_model_def
  new_LLama2Model_def ok_layer_forward_def failing_layer_forward_def

lemmas state_defs =
  example_layer_def loaded_model_def loaded_world_def example_input_tokens_def
  example_input_embeddings_def ready_model_def ready_world_def

lemma replicate_2: "replicate 2 x = [x, x]"
  by (simp add: numeral_2_eq_2)

text \<open>\<open>is_weight_valid\<close> read on natural numbers: the product wraps at \<open>2 ^ 64\<close>.\<close>

lemma is_weight_valid_unat:
  "is_weight_valid r peek \<longleftrightarrow> (unat peek * 4) mod 2 ^ 64 < unat (file_size r)"
  by (simp add: is_weight_valid_def sizeof_float_def word_less_nat_alt unat_word_ariths)

text \<open>
  \<open>create_embedding_layer\<close> always yields a layer: slot 0 is within the arity it has just
  declared, so the branch of \<open>read_model_file\<close> for a null layer is never taken.
\<close>

lemma create_embedding_layer_Some: "\<exists>l. create_embedding_layer m c r = Some l"
  by (simp add: create_embedding_layer_def layer_defs Let_def)

text \<open>
  The path of \<open>read_model_file\<close> for a vocabulary mismatch, for every file and tokenizer:
  the status is \<open>ModelParseError\<close>, the header stays in \<open>config_\<close>, and the only call
  recorded is the \<open>fopen\<close>.
\<close>

lemma read_model_file_vocab_mismatch:
  assumes "fopen_ok e (m_model_path m)"
    and "fread_config e (m_model_path m) = (True, c)"
    and "abs32 (vocab_size c) \<noteq> m_vocab_size m"
  shows "read_model_file e m w =
           (ModelParseError ''Vocabulary size mismatch between the model file and the token list.'',
            m\<lparr>m_config := Some c\<rparr>,
            w\<lparr>trace := trace w @ [Fopen (m_model_path m)]\<rparr>)"
  using assms by (simp add: read_model_file_def Let_def)

text \<open>What \<open>read_model_file\<close> never touches, and what it touches only on success.\<close>

lemma read_model_file_keeps:
  assumes "read_model_file e m w = (s, m', w')"
  shows "m_buffers m' = m_buffers m" and "heap w' = heap w"
    and "m_encode_layer m' = m_encode_layer m" and "m_device_type m' = m_device_type m"
    and "\<not> status_ok s \<Longrightarrow> m_embedding_layer m' = m_embedding_layer m"
  using assms
  by (auto simp: read_model_file_def Let_def status_defs
      split: if_splits prod.splits option.splits)

lemma forward_no_token_buffer:
  "m_buffers m kInputTokens = None \<Longrightarrow> forward lf m w tokens p = Fatal"
  by (simp add: forward_def get_buffer_def)

text \<open>The store loop leaves the block exactly when the tokens outnumber the cells left.\<close>

lemma write_cells_None:
  "i \<le> length cells \<Longrightarrow>
   write_cells cells i tokens = None \<longleftrightarrow> length cells < i + length tokens"
  by (induction tokens arbitrary: cells i) auto

lemma write_cells_None_0:
  "write_cells cells 0 tokens = None \<longleftrightarrow> length cells < length tokens"
  by (simp add: write_cells_None)

text \<open>
  Within the block the loop stores every token, in order, from cell \<open>i\<close> on, and leaves
  the other cells as they were.
\<close>

lemma write_cells_stores:
  "i + length tokens \<le> length cells \<Longrightarrow>
   write_cells cells i tokens = Some (take i cells @ tokens @ drop (i + length tokens) cells)"
proof (induction tokens arbitrary: cells i)
  case Nil
  then show ?case by simp
next
  case (Cons t ts)
  then have i: "i < length cells" by simp
  have "write_cells (cells[i := t]) (Suc i) ts =
          Some (take (Suc i) (cells[i := t]) @ ts @ drop (Suc i + length ts) (cells[i := t]))"
    using Cons by simp
  moreover have "take (Suc i) (cells[i := t]) = take i cells @ [t]"
    using i by (simp add: take_Suc_conv_app_nth)
  moreover have "drop (Suc i + length ts) (cells[i := t]) = drop (Suc i + length ts) cells"
    by simp
  ultimately show ?case using i by simp
qed

lemma write_cells_stores_0:
  "length tokens \<le> length cells \<Longrightarrow>
   write_cells cells 0 tokens = Some (tokens @ drop (length tokens) cells)"
  using write_cells_stores [of 0 tokens cells] by simp

lemma write_tokens_stores:
  "heap w b = Some cells \<Longrightarrow> length tokens \<le> length cells \<Longrightarrow>
   write_tokens w (HostBuffer b) tokens =
     Some (w\<lparr>heap := (heap w)(b \<mapsto> tokens @ drop (length tokens) cells)\<rparr>)"
  by (simp add: write_tokens_def write_cells_stores_0)

lemma write_tokens_overrun:
  "heap w b = Some cells \<Longrightarrow> length cells < length tokens \<Longrightarrow>
   write_tokens w (HostBuffer b) tokens = None"
  using write_cells_None_0 [of cells tokens] by (simp add: write_tokens_def)

text \<open>
  What \<open>init_mem\<close> registers when the allocator grants the token buffer: a tensor of shape
  \<open>[seq_len]\<close> bound to a fresh block of \<open>seq_len\<close> cells.
\<close>

lemma init_mem_token_buffer:
  assumes "m_config m = Some c" and "init_mem e m w = Returned (m', w')"
    and "cpu_alloc e (sint (seq_len c) * 4)"
  shows "m_buffers m' kInputTokens =
           Some ((new_Tensor kDataTypeInt32 [seq_len c])
                   \<lparr>buffer := Some (HostBuffer (next_buffer w))\<rparr>)"
    and "heap w' (next_buffer w) = Some (replicate (nat (sint (seq_len c))) 0)"
    and "m_buffers m' kInputEmbeddings \<noteq> None"
  using assms
  by (auto simp: init_mem_def allocate_def Let_def insert_buffer_def status_defs new_Tensor_def
      tensor_size_def DataTypeSize_def
      split: if_splits prod.splits option.splits)

text \<open>
  With the allocation refused, \<open>init_mem\<close> (which does not look at what \<open>allocate\<close>
  returns) registers the token tensor without memory.
\<close>

lemma init_mem_unallocated:
  assumes "m_config m = Some c" and "init_mem e m w = Returned (m', w')"
    and "\<not> cpu_alloc e (sint (seq_len c) * 4)"
  shows "m_buffers m' kInputTokens = Some (new_Tensor kDataTypeInt32 [seq_len c])"
    and "m_buffers m' kInputEmbeddings \<noteq> None"
  using assms
  by (auto simp: init_mem_def allocate_def Let_def insert_buffer_def status_defs new_Tensor_def
      tensor_size_def DataTypeSize_def
      split: if_splits prod.splits option.splits)

text \<open>
  \<open>forward\<close> on a runtime whose token tensor is bound to a live block: within the block
  the layer runs on the world in which the tokens have been stored; beyond it the stores
  leave the buffer; and with no memory bound nothing is stored.
\<close>

lemma forward_runs_layer_on_stored_tokens:
  assumes "m_buffers m kInputTokens = Some t"
    and "m_buffers m kInputEmbeddings = Some ie"
    and "buffer t = Some (HostBuffer b)"
    and "heap w b = Some cells"
    and "length tokens \<le> length cells"
    and "m_embedding_layer m = Some l"
    and "set_input l 0 t = Some l1"
    and "set_input l1 1 (new_Tensor kDataTypeInt32 [of_nat (length tokens)]) = Some l2"
    and "set_output l2 0 ie = Some l3"
  shows "forward lf m w tokens start_pos =
           (case lf l3 (w\<lparr>heap := (heap w)(b \<mapsto> tokens @ drop (length tokens) cells)\<rparr>) of
              Fatal \<Rightarrow> Fatal
            | Undefined \<Rightarrow> Undefined
            | Returned (st, l4, w2) \<Rightarrow>
                Returned (if status_ok st then Success
                          else st\<lparr>err_msg := ''The embedding layer forward failed: '' @
                                              err_msg st\<rparr>,
                          m\<lparr>m_embedding_layer := Some l4\<rparr>, w2))"
  using assms write_tokens_stores [of w b cells tokens]
  by (simp add: forward_def get_buffer_def tensor_ptr_def Let_def set_err_msg_def
      get_err_msg_def split: outcome.splits)

lemma forward_no_layer_after_store:
  assumes "m_buffers m kInputTokens = Some t"
    and "m_buffers m kInputEmbeddings = Some ie"
    and "buffer t = Some (HostBuffer b)"
    and "heap w b = Some cells"
    and "length tokens \<le> length cells"
    and "m_embedding_layer m = None"
  shows "forward lf m w tokens start_pos =
           Returned (InternalError ''Create embedding layer failed in the init stage.'', m,
                     w\<lparr>heap := (heap w)(b \<mapsto> tokens @ drop (length tokens) cells)\<rparr>)"
  using assms write_tokens_stores [of w b cells tokens]
  by (simp add: forward_def get_buffer_def tensor_ptr_def Let_def)

lemma forward_overrun:
  assumes "m_buffers m kInputTokens = Some t"
    and "m_buffers m kInputEmbeddings = Some ie"
    and "buffer t = Some (HostBuffer b)"
    and "heap w b = Some cells"
    and "length cells < length tokens"
  shows "forward lf m w tokens start_pos = Undefined"
  using assms write_tokens_overrun [of w b cells tokens]
  by (simp add: forward_def get_buffer_def tensor_ptr_def)

lemma forward_unallocated:
  assumes "m_buffers m kInputTokens = Some t"
    and "m_buffers m kInputEmbeddings = Some ie"
    and "buffer t = None"
  shows "forward lf m w tokens start_pos =
           Returned (InternalError ''Can't get the input token pointer in the forward function.'',
                     m, w)"
  using assms by (simp add: forward_def get_buffer_def tensor_ptr_def)

text \<open>
  The destructor on an object whose \<open>mmap\<close> had failed: nothing is unmapped and the
  pointer keeps that value.
\<close>

lemma destructor_MAP_FAILED:
  "data r = MAP_FAILED \<Longrightarrow>
   data (fst (destroy_LLamaRawModelData r)) = MAP_FAILED \<and>
   count_calls is_munmap (snd (destroy_LLamaRawModelData r)) = 0"
  by (simp add: destroy_LLamaRawModelData_def Let_def count_calls_def)

subsection \<open>The concrete run\<close>

lemma read_model_file_example:
  "read_model_file example_env
     (example_model\<lparr>m_vocab_size := 10, m_device_type := kDeviceCPU,
        m_encode_layer := Some \<lparr>has_bos = True, has_eos = False, spe = ''tokenizer.model''\<rparr>\<rparr>)
     example_world = (Success, loaded_model, loaded_world)"
  by (simp add: read_model_file_def Let_def example_defs state_defs abs32_def status_defs
      create_embedding_layer_def layer_defs new_LLamaRawModelData_def MAP_FAILED_def nullptr_def
      float_ptr_add_def sizeof_float_def weight_def replicate_2
      release_raw_model_data_def)

lemma init_mem_example:
  "init_mem example_env loaded_model loaded_world = Returned (ready_model, ready_world)"
  by (simp add: init_mem_def Let_def example_defs state_defs allocate_def insert_buffer_def
      status_defs new_Tensor_def tensor_size_def DataTypeSize_def)

lemma init_example:
  "init example_env example_model example_world kDeviceCPU =
     Returned (Success, ready_model, ready_world)"
proof -
  have "init example_env example_model example_world kDeviceCPU =
          (case init_mem example_env loaded_model loaded_world of
             Fatal \<Rightarrow> Fatal
           | Undefined \<Rightarrow> Undefined
           | Returned (m5, w2) \<Rightarrow> Returned (Success, m5, w2))"
    using read_model_file_example
    by (simp add: init_def Let_def example_env_def example_model_def new_LLama2Model_def
        status_defs)
  then show ?thesis by (simp add: init_mem_example)
qed

lemma init_mem_refused_example:
  "init_mem refusing_env loaded_model loaded_world = Returned (unallocated_model, loaded_world)"
  by (simp add: init_mem_def Let_def example_defs state_defs allocate_def insert_buffer_def
      status_defs new_Tensor_def tensor_size_def DataTypeSize_def refusing_env_def
      unallocated_model_def)

lemma init_refused_example:
  "init refusing_env example_model example_world kDeviceCPU =
     Returned (Success, unallocated_model, loaded_world)"
proof -
  have "read_model_file refusing_env
     (example_model\<lparr>m_vocab_size := 10, m_device_type := kDeviceCPU,
        m_encode_layer := Some \<lparr>has_bos = True, has_eos = False, spe = ''tokenizer.model''\<rparr>\<rparr>)
     example_world = (Success, loaded_model, loaded_world)"
    by (simp add: read_model_file_def Let_def example_defs state_defs abs32_def status_defs
      create_embedding_layer_def layer_defs new_LLamaRawModelData_def MAP_FAILED_def nullptr_def
      float_ptr_add_def sizeof_float_def weight_def replicate_2
      release_raw_model_data_def refusing_env_def)
  then have "init refusing_env example_model example_world kDeviceCPU =
          (case init_mem refusing_env loaded_model loaded_world of
             Fatal \<Rightarrow> Fatal
           | Undefined \<Rightarrow> Undefined
           | Returned (m5, w2) \<Rightarrow> Returned (Success, m5, w2))"
    by (simp add: init_def Let_def example_env_def example_model_def new_LLama2Model_def
        status_defs refusing_env_def)
  then show ?thesis by (simp add: init_mem_refused_example)
qed

text \<open>
  Loading again on the loaded runtime: the object replaced in \<open>raw_model_data_\<close> is
  destroyed, so one mapping and one descriptor are held afterwards, not two.
\<close>

lemma read_model_file_reload_example:
  "trace (snd (snd (read_model_file example_env loaded_model loaded_world))) =
     [Fopen ''stories.bin'', Fclose, Open ''stories.bin'' 3, Mmap 4096 188 3,
      Fopen ''stories.bin'', Munmap 4096 188, Close 3, Fclose,
      Open ''stories.bin'' 3, Mmap 4096 188 3] \<and>
   live_mappings (trace (snd (snd (read_model_file example_env loaded_model loaded_world)))) = 1 \<and>
   open_descriptors (trace (snd (snd (read_model_file example_env loaded_model loaded_world)))) = 1 \<and>
   open_streams (trace (snd (snd (read_model_file example_env loaded_model loaded_world)))) = 0"
  by (simp add: read_model_file_def Let_def example_defs state_defs abs32_def status_defs
      create_embedding_layer_def layer_defs new_LLamaRawModelData_def MAP_FAILED_def nullptr_def
      float_ptr_add_def sizeof_float_def weight_def replicate_2
      release_raw_model_data_def destroy_LLamaRawModelData_def
      live_mappings_def open_descriptors_def open_streams_def count_calls_def)

lemma init_mismatch_example:
  "init mismatch_env example_model example_world kDeviceCPU =
     Returned
       (ModelParseError ''Vocabulary size mismatch between the model file and the token list.'',
        example_model\<lparr>m_vocab_size := 10, m_device_type := kDeviceCPU,
          m_encode_layer := Some \<lparr>has_bos = True, has_eos = False, spe = ''tokenizer.model''\<rparr>,
          m_config := Some (example_config\<lparr>vocab_size := 5\<rparr>)\<rparr>,
        example_world\<lparr>trace := [Fopen ''stories.bin'']\<rparr>)"
  by (simp add: init_def read_model_file_def Let_def example_defs abs32_def status_defs)

section \<open>The claims\<close>

subsection \<open>C1: the bounds check on a weight offset\<close>

text \<open>
  C1, as the code has it. \<open>is_weight_valid(offset)\<close> is true exactly when the byte offset
  at which the element starts, \<open>offset * 4\<close> computed in \<open>size_t\<close> (modulo \<open>2 ^ 64\<close>),
  is below \<open>file_size\<close>. When \<open>file_size\<close> is a multiple of 4 and \<open>offset * 4\<close> does not
  wrap, this is the same as \<open>(offset + 1) * 4 \<le> file_size\<close>.
\<close>

theorem is_weight_valid_start_offset:
  "(is_weight_valid r peek \<longleftrightarrow> (unat peek * 4) mod 2 ^ 64 < unat (file_size r)) \<and>
   (4 dvd unat (file_size r) \<and> unat peek * 4 < 2 ^ 64 \<longrightarrow>
      (is_weight_valid r peek \<longleftrightarrow> (unat peek + 1) * 4 \<le> unat (file_size r)))"
proof -
  have exact: "is_weight_valid r peek \<longleftrightarrow> (unat peek * 4) mod 2 ^ 64 < unat (file_size r)"
    by (rule is_weight_valid_unat)
  have "is_weight_valid r peek \<longleftrightarrow> (unat peek + 1) * 4 \<le> unat (file_size r)"
    if d: "4 dvd unat (file_size r)" and b: "unat peek * 4 < 2 ^ 64"
  proof -
    from d obtain k where k: "unat (file_size r) = 4 * k" by (rule dvdE)
    from b have "(unat peek * 4) mod 2 ^ 64 = unat peek * 4" by simp
    with exact k show ?thesis by auto
  qed
  with exact show ?thesis by blast
qed

text \<open>
  C1, witness: a file of 32 bytes (a multiple of 4); offset 7 is the last valid element,
  and \<open>(7 + 1) * 4 \<le> 32\<close>.
\<close>

theorem is_weight_valid_start_offset_witness:
  "4 dvd unat (file_size \<lparr>fd = 3, file_size = 32, data = 4096, weight_data = 4124\<rparr>) \<and>
   unat (7 :: size_t) * 4 < 2 ^ 64 \<and>
   is_weight_valid \<lparr>fd = 3, file_size = 32, data = 4096, weight_data = 4124\<rparr> 7 \<and>
   (unat (7 :: size_t) + 1) * 4 \<le> unat (32 :: size_t)"
  using is_weight_valid_start_offset
          [of "\<lparr>fd = 3, file_size = 32, data = 4096, weight_data = 4124\<rparr>" 7]
  by simp

text \<open>
  C1, counterexample to the claim as stated: in a file of 29 bytes, offset 7 is accepted
  (\<open>28 < 29\<close>) although \<open>(7 + 1) * 4 = 32\<close> exceeds the file size.
\<close>

theorem is_weight_valid_partial_element:
  "\<not> (is_weight_valid \<lparr>fd = 3, file_size = 29, data = 4096, weight_data = 4124\<rparr> 7
       \<longleftrightarrow> (unat (7 :: size_t) + 1) * 4 \<le> unat (29 :: size_t))"
  by (simp add: is_weight_valid_def sizeof_float_def)

subsection \<open>C2: resources on the vocabulary-mismatch path\<close>

text \<open>
  C2, the code at a file whose header says \<open>vocab_size = 5\<close> while the tokenizer has 10
  pieces: \<open>read_model_file\<close> returns \<open>ModelParseError\<close>, no descriptor is opened and
  nothing is mapped, but the stdio stream opened by \<open>fopen\<close> is never closed: one
  stream is still open when the function returns.
\<close>

theorem read_model_file_mismatch_leaves_stream_open:
  "fst (read_model_file mismatch_env (example_model\<lparr>m_vocab_size := 10\<rparr>) example_world) =
     ModelParseError ''Vocabulary size mismatch between the model file and the token list.'' \<and>
   trace (snd (snd (read_model_file mismatch_env (example_model\<lparr>m_vocab_size := 10\<rparr>)
                      example_world))) = [Fopen ''stories.bin''] \<and>
   open_streams (trace (snd (snd (read_model_file mismatch_env
                      (example_model\<lparr>m_vocab_size := 10\<rparr>) example_world)))) = 1 \<and>
   live_mappings (trace (snd (snd (read_model_file mismatch_env
                      (example_model\<lparr>m_vocab_size := 10\<rparr>) example_world)))) = 0 \<and>
   open_descriptors (trace (snd (snd (read_model_file mismatch_env
                      (example_model\<lparr>m_vocab_size := 10\<rparr>) example_world)))) = 0"
  by (simp add: read_model_file_def Let_def example_defs abs32_def
      open_streams_def live_mappings_def open_descriptors_def count_calls_def)

subsection \<open>C3: forward without a registered token buffer\<close>

text \<open>
  C3, as the code has it. When the token-id buffer was never registered, \<open>forward\<close> does
  not return: the \<open>CHECK\<close> of \<open>get_buffer\<close> aborts the process. The recoverable
  \<open>InternalError\<close> is what \<open>forward\<close> returns, leaving the runtime unchanged, when both
  buffers are registered and the token tensor has no memory bound (its pointer is null).
\<close>

theorem forward_token_buffer_missing_or_unbound:
  "(m_buffers m kInputTokens = None \<longrightarrow> forward lf m w tokens start_pos = Fatal) \<and>
   (\<forall>t e. m_buffers m kInputTokens = Some t \<and> m_buffers m kInputEmbeddings = Some e \<and>
           buffer t = None \<longrightarrow>
      forward lf m w tokens start_pos =
        Returned (InternalError ''Can't get the input token pointer in the forward function.'',
                  m, w))"
  by (simp add: forward_def get_buffer_def tensor_ptr_def)

text \<open>
  C3, witness: the freshly constructed runtime (empty registry) aborts; the runtime
  whose token tensor is registered but was never allocated returns the error.
\<close>

theorem forward_token_buffer_missing_or_unbound_witness:
  "forward ok_layer_forward example_model example_world [3, 7] 0 = Fatal \<and>
   forward ok_layer_forward
     (ready_model\<lparr>m_buffers := [kInputTokens \<mapsto> new_Tensor kDataTypeInt32 [8],
                                kInputEmbeddings \<mapsto> example_input_embeddings]\<rparr>)
     ready_world [3, 7] 0 =
   Returned (InternalError ''Can't get the input token pointer in the forward function.'',
             ready_model\<lparr>m_buffers := [kInputTokens \<mapsto> new_Tensor kDataTypeInt32 [8],
                                        kInputEmbeddings \<mapsto> example_input_embeddings]\<rparr>,
             ready_world)"
proof -
  let ?m = "ready_model\<lparr>m_buffers := [kInputTokens \<mapsto> new_Tensor kDataTypeInt32 [8],
                                     kInputEmbeddings \<mapsto> example_input_embeddings]\<rparr>"
  have a: "m_buffers example_model kInputTokens = None"
    by (simp add: example_defs)
  have b: "m_buffers ?m kInputTokens = Some (new_Tensor kDataTypeInt32 [8]) \<and>
           m_buffers ?m kInputEmbeddings = Some example_input_embeddings \<and>
           buffer (new_Tensor kDataTypeInt32 [8]) = None"
    by (simp add: new_Tensor_def)
  from forward_token_buffer_missing_or_unbound
         [of example_model ok_layer_forward example_world "[3, 7]" 0] a
  have 1: "forward ok_layer_forward example_model example_world [3, 7] 0 = Fatal"
    by blast
  from forward_token_buffer_missing_or_unbound [of ?m ok_layer_forward ready_world "[3, 7]" 0] b
  have 2: "forward ok_layer_forward ?m ready_world [3, 7] 0 =
             Returned (InternalError ''Can't get the input token pointer in the forward function.'',
                       ?m, ready_world)"
    by blast
  from 1 2 show ?thesis by simp
qed

text \<open>
  C3, counterexample to the claim as stated: on the freshly constructed runtime, where
  the token buffer is not registered, \<open>forward\<close> aborts and returns no status at all.
\<close>

theorem forward_unregistered_returns_no_status:
  "m_buffers example_model kInputTokens = None \<and>
   forward ok_layer_forward example_model example_world [3, 7] 0 = Fatal \<and>
   outcome_status (forward ok_layer_forward example_model example_world [3, 7] 0) = None"
  by (simp add: forward_def get_buffer_def example_defs)

subsection \<open>C4: what a failed init leaves behind\<close>

text \<open>
  C4, as the code has it. When \<open>init\<close> returns a status that is not success, the buffer
  registry, the embedding-layer slot and the heap of activation buffers are exactly as
  they were before the call; on a runtime whose registry had no token buffer, every later
  \<open>forward\<close> therefore aborts at the registry lookup. Nothing is rolled back, though:
  when the failure comes from the loader stage, the device type and the encode layer
  written by the earlier stage stay populated.
\<close>

theorem init_failure_keeps_registry:
  assumes "init e m w d = Returned (s, m', w')" and "\<not> status_ok s"
  shows "m_buffers m' = m_buffers m \<and> m_embedding_layer m' = m_embedding_layer m \<and>
         heap w' = heap w \<and>
         (m_buffers m kInputTokens = None \<longrightarrow>
            (\<forall>lf tokens p. forward lf m' w' tokens p = Fatal)) \<and>
         (m_token_path m \<noteq> [] \<and> sentencepiece_Load e (m_token_path m) \<and>
          0 < sint (GetPieceSize e (m_token_path m)) \<longrightarrow>
            m_device_type m' = d \<and>
            m_encode_layer m' =
              Some \<lparr>has_bos = True, has_eos = False, spe = m_token_path m\<rparr>)"
proof -
  have keep: "m_buffers m' = m_buffers m \<and> m_embedding_layer m' = m_embedding_layer m \<and>
              heap w' = heap w"
    using assms
    by (auto simp: init_def Let_def status_defs
        split: if_splits prod.splits outcome.splits dest: read_model_file_keeps)
  then have fatal: "m_buffers m kInputTokens = None \<longrightarrow>
                      (\<forall>lf tokens p. forward lf m' w' tokens p = Fatal)"
    by (simp add: forward_no_token_buffer)
  have stay: "m_device_type m' = d \<and>
              m_encode_layer m' =
                Some \<lparr>has_bos = True, has_eos = False, spe = m_token_path m\<rparr>"
    if "m_token_path m \<noteq> []" "sentencepiece_Load e (m_token_path m)"
       "0 < sint (GetPieceSize e (m_token_path m))"
    using assms that
    by (auto simp: init_def Let_def status_defs
        split: if_splits prod.splits outcome.splits dest: read_model_file_keeps)
  from keep fatal stay show ?thesis by blast
qed

text \<open>
  C4, witness: \<open>init\<close> on the file with the mismatching header fails with
  \<open>ModelParseError\<close>, the registry is still empty, and \<open>forward\<close> on the runtime it
  leaves aborts.
\<close>

theorem init_failure_keeps_registry_witness:
  "map_option code (outcome_status (init mismatch_env example_model example_world kDeviceCPU))
     = Some kModelParseError \<and>
   map_option m_buffers
     (outcome_model (init mismatch_env example_model example_world kDeviceCPU))
     = Some (m_buffers example_model) \<and>
   forward ok_layer_forward
     (the (outcome_model (init mismatch_env example_model example_world kDeviceCPU)))
     (the (outcome_world (init mismatch_env example_model example_world kDeviceCPU)))
     [3, 7] 0 = Fatal"
proof -
  have fail: "\<not> status_ok
      (ModelParseError ''Vocabulary size mismatch between the model file and the token list.'')"
    by (simp add: status_defs)
  have none: "m_buffers example_model kInputTokens = None"
    by (simp add: example_defs)
  from init_failure_keeps_registry [OF init_mismatch_example fail] none init_mismatch_example
  show ?thesis
    by (simp add: ModelParseError_def)
qed

text \<open>
  C4, counterexample to the claim as stated: after that failed \<open>init\<close> the header read
  from the file, the encode layer and the device type are all still set.
\<close>

theorem init_failure_leaves_fields_populated:
  "map_option code (outcome_status (init mismatch_env example_model example_world kDeviceCPU))
     = Some kModelParseError \<and>
   map_option m_config
     (outcome_model (init mismatch_env example_model example_world kDeviceCPU))
     = Some (Some \<lparr>dim = 4, seq_len = 8, vocab_size = 5\<rparr>) \<and>
   map_option m_encode_layer
     (outcome_model (init mismatch_env example_model example_world kDeviceCPU))
     = Some (Some \<lparr>has_bos = True, has_eos = False, spe = ''tokenizer.model''\<rparr>) \<and>
   map_option m_device_type
     (outcome_model (init mismatch_env example_model example_world kDeviceCPU))
     = Some kDeviceCPU"
  by (simp add: init_mismatch_example example_config_def ModelParseError_def)

subsection \<open>C5: the destructor of the mapped file\<close>

text \<open>
  C5. On an object that holds a mapping (its data pointer is neither null nor
  \<open>MAP_FAILED\<close>) the destructor unmaps the region, exactly once, then closes the descriptor
  if there is one, and leaves the data pointer null. On an object that holds a descriptor it
  closes that descriptor exactly once. On every object it calls \<open>munmap\<close> at most once
  and \<open>close\<close> at most once and leaves the descriptor \<open>-1\<close>, and running the same
  logic again on the object it leaves makes no call and changes nothing.
\<close>

theorem destructor_tears_down_once:
  "(data r \<noteq> nullptr \<and> data r \<noteq> MAP_FAILED \<longrightarrow>
      snd (destroy_LLamaRawModelData r) =
        Munmap (data r) (file_size r) # (if fd r \<noteq> - 1 then [Close (fd r)] else []) \<and>
      count_calls is_munmap (snd (destroy_LLamaRawModelData r)) = 1 \<and>
      data (fst (destroy_LLamaRawModelData r)) = nullptr) \<and>
   (fd r \<noteq> - 1 \<longrightarrow>
      count_calls is_close (snd (destroy_LLamaRawModelData r)) = 1 \<and>
      filter is_close (snd (destroy_LLamaRawModelData r)) = [Close (fd r)]) \<and>
   count_calls is_munmap (snd (destroy_LLamaRawModelData r)) \<le> 1 \<and>
   count_calls is_close (snd (destroy_LLamaRawModelData r)) \<le> 1 \<and>
   fd (fst (destroy_LLamaRawModelData r)) = - 1 \<and>
   destroy_LLamaRawModelData (fst (destroy_LLamaRawModelData r))
     = (fst (destroy_LLamaRawModelData r), [])"
  by (simp add: destroy_LLamaRawModelData_def Let_def count_calls_def)

text \<open>
  C5, witness: the object left by the successful load is unmapped and closed once, and a
  second run does nothing.
\<close>

theorem destructor_tears_down_once_witness:
  "data \<lparr>fd = 3, file_size = 188, data = 4096, weight_data = 4124\<rparr> \<noteq> nullptr \<and>
   data \<lparr>fd = 3, file_size = 188, data = 4096, weight_data = 4124\<rparr> \<noteq> MAP_FAILED \<and>
   fd \<lparr>fd = 3, file_size = 188, data = 4096, weight_data = 4124\<rparr> \<noteq> - 1 \<and>
   destroy_LLamaRawModelData \<lparr>fd = 3, file_size = 188, data = 4096, weight_data = 4124\<rparr> =
     (\<lparr>fd = - 1, file_size = 188, data = nullptr, weight_data = 4124\<rparr>,
      [Munmap 4096 188, Close 3]) \<and>
   destroy_LLamaRawModelData \<lparr>fd = - 1, file_size = 188, data = nullptr, weight_data = 4124\<rparr> =
     (\<lparr>fd = - 1, file_size = 188, data = nullptr, weight_data = 4124\<rparr>, [])"
  using destructor_tears_down_once
          [of "\<lparr>fd = 3, file_size = 188, data = 4096, weight_data = 4124\<rparr>"]
  by (simp add: destroy_LLamaRawModelData_def Let_def nullptr_def MAP_FAILED_def)

subsection \<open>C6: the base of the weight region\<close>

text \<open>
  C6. After a successful \<open>read_model_file\<close> the mapped-file object is set, its data
  pointer is what \<open>mmap\<close> returned, its weight pointer is the data pointer advanced by
  \<open>sizeof(LlamaModelConfig) / 4\<close> float elements (4 bytes each), and \<open>weight(offset)\<close>
  is the weight pointer advanced by \<open>offset\<close> elements, for every offset.
\<close>

theorem read_model_file_weight_base:
  assumes "read_model_file e m w = (s, m', w')" and "status_ok s"
  shows "\<exists>r. m_raw_model_data m' = Some r \<and>
             data r = mmap_result e (ftell_end e (m_model_path m)) (open_result e (m_model_path m)) \<and>
             weight_data r = data r + 4 * (sizeof_LlamaModelConfig e div 4) \<and>
             (\<forall>offset. weight r offset = weight_data r + 4 * offset)"
  using assms
  by (auto simp: read_model_file_def Let_def status_defs float_ptr_add_def sizeof_float_def
      weight_def new_LLamaRawModelData_def
      split: if_splits prod.splits option.splits)

text \<open>
  C6, witness: the file with a 28-byte header mapped at 4096 has its weights at
  \<open>4096 + 4 * 7 = 4124\<close>, and \<open>weight(5)\<close> is \<open>4124 + 20\<close>.
\<close>

theorem read_model_file_weight_base_witness:
  "read_model_file example_env
     (example_model\<lparr>m_vocab_size := 10, m_device_type := kDeviceCPU,
        m_encode_layer := Some \<lparr>has_bos = True, has_eos = False, spe = ''tokenizer.model''\<rparr>\<rparr>)
     example_world = (Success, loaded_model, loaded_world) \<and>
   status_ok Success \<and>
   m_raw_model_data loaded_model =
     Some \<lparr>fd = 3, file_size = 188, data = 4096, weight_data = 4124\<rparr> \<and>
   (4124 :: addr) = 4096 + 4 * (28 div 4) \<and>
   weight \<lparr>fd = 3, file_size = 188, data = 4096, weight_data = 4124\<rparr> 5 = 4124 + 4 * 5"
proof -
  have ok: "status_ok Success" by (simp add: status_defs)
  from read_model_file_weight_base [OF read_model_file_example ok] ok read_model_file_example
  show ?thesis
    by (simp add: loaded_model_def example_env_def)
qed

subsection \<open>C7: inserting under a key that is bound\<close>

text \<open>
  C7. When the key is already bound in the registry, \<open>insert_buffer\<close> returns the
  key-exists error (\<open>KeyHasExits\<close> in the source) and the runtime it leaves is the one it
  was given: the bound tensor is not overwritten and no other key changes.
\<close>

theorem insert_buffer_existing_key:
  "m_buffers m key \<noteq> None \<Longrightarrow>
   code (fst (insert_buffer m key tensor)) = kKeyHasExits \<and>
   snd (insert_buffer m key tensor) = m"
  by (simp add: insert_buffer_def KeyHasExits_def)

text \<open>C7, witness: inserting an empty tensor over the registered token buffer.\<close>

theorem insert_buffer_existing_key_witness:
  "m_buffers ready_model kInputTokens \<noteq> None \<and>
   code (fst (insert_buffer ready_model kInputTokens empty_Tensor)) = kKeyHasExits \<and>
   snd (insert_buffer ready_model kInputTokens empty_Tensor) = ready_model"
proof -
  have h: "m_buffers ready_model kInputTokens \<noteq> None"
    by (simp add: ready_model_def)
  from insert_buffer_existing_key [OF h, of empty_Tensor] h show ?thesis by simp
qed

subsection \<open>C8: the message of a failed embedding stage\<close>



subsection \<open>C9: start_pos\<close>

text \<open>
  C9. \<open>forward\<close> does not depend on \<open>start_pos\<close>: for every runtime, world, embedding
  layer, token list and any two values of \<open>start_pos\<close>, the two calls have the same
  outcome, that is the same status, the same runtime (registry and layer slots) and the
  same buffer contents, or they both abort.
\<close>

theorem forward_ignores_start_pos:
  "forward lf m w tokens p1 = forward lf m w tokens p2"
  by (simp add: forward_def)

text \<open>C9, witness: the initialised runtime, tokens 3 and 7, positions 0 and 5.\<close>

theorem forward_ignores_start_pos_witness:
  "forward ok_layer_forward ready_model ready_world [3, 7] 0 =
   forward ok_layer_forward ready_model ready_world [3, 7] 5"
  by (rule forward_ignores_start_pos)

subsection \<open>C10: the capacity of the token buffer\<close>

text \<open>
  C10, as the code has it. \<open>forward\<close> stores all \<open>tokens.size()\<close> token ids, in order
  from the start of the \<open>kInputTokens\<close> buffer, with no check against its capacity.
  When \<open>init_mem\<close> returns and the allocator granted the token buffer, the registered
  tensor has shape \<open>[seq_len]\<close> and a block of exactly \<open>seq_len\<close> cells (none when
  \<open>seq_len\<close> is negative): a list of at most \<open>seq_len\<close> tokens is stored in the first
  cells of the block, the others unchanged, and the embedding layer runs on that memory;
  every longer list is written beyond the buffer's extent. When the allocator refused the
  request, \<open>init_mem\<close>, which ignores what \<open>allocate\<close> returns, registers the tensor
  without memory, and \<open>forward\<close> returns \<open>InternalError\<close> for every token list and
  writes nothing.
\<close>

theorem forward_token_buffer_capacity:
  assumes "m_config m = Some c" and "init_mem e m w = Returned (m', w')"
  shows
   "(cpu_alloc e (sint (seq_len c) * 4) \<longrightarrow>
      (\<exists>b cells ie.
         m_buffers m' kInputTokens =
           Some ((new_Tensor kDataTypeInt32 [seq_len c])\<lparr>buffer := Some (HostBuffer b)\<rparr>) \<and>
         m_buffers m' kInputEmbeddings = Some ie \<and>
         heap w' b = Some cells \<and>
         length cells = nat (sint (seq_len c)) \<and>
         (\<forall>tokens. nat (sint (seq_len c)) < length tokens \<longrightarrow>
            write_tokens w' (HostBuffer b) tokens = None \<and>
            (\<forall>lf start_pos. forward lf m' w' tokens start_pos = Undefined)) \<and>
         (\<forall>tokens. length tokens \<le> nat (sint (seq_len c)) \<longrightarrow>
            write_tokens w' (HostBuffer b) tokens =
              Some (w'\<lparr>heap := (heap w')(b \<mapsto> tokens @ drop (length tokens) cells)\<rparr>) \<and>
            (\<forall>lf start_pos.
               m_embedding_layer m' = None \<longrightarrow>
               forward lf m' w' tokens start_pos =
                 Returned (InternalError ''Create embedding layer failed in the init stage.'', m',
                           w'\<lparr>heap := (heap w')(b \<mapsto> tokens @ drop (length tokens) cells)\<rparr>)) \<and>
            (\<forall>lf start_pos l l1 l2 l3.
               m_embedding_layer m' = Some l \<and>
               set_input l 0 ((new_Tensor kDataTypeInt32 [seq_len c])
                                \<lparr>buffer := Some (HostBuffer b)\<rparr>) = Some l1 \<and>
               set_input l1 1 (new_Tensor kDataTypeInt32 [of_nat (length tokens)]) = Some l2 \<and>
               set_output l2 0 ie = Some l3 \<longrightarrow>
               forward lf m' w' tokens start_pos =
                 (case lf l3 (w'\<lparr>heap := (heap w')(b \<mapsto> tokens @ drop (length tokens) cells)\<rparr>) of
                    Fatal \<Rightarrow> Fatal
                  | Undefined \<Rightarrow> Undefined
                  | Returned (st, l4, w2) \<Rightarrow>
                      Returned (if status_ok st then Success
                                else st\<lparr>err_msg := ''The embedding layer forward failed: '' @
                                                    err_msg st\<rparr>,
                                m'\<lparr>m_embedding_layer := Some l4\<rparr>, w2)))))) \<and>
    (\<not> cpu_alloc e (sint (seq_len c) * 4) \<longrightarrow>
       m_buffers m' kInputTokens = Some (new_Tensor kDataTypeInt32 [seq_len c]) \<and>
       (\<forall>lf tokens start_pos.
          forward lf m' w' tokens start_pos =
            Returned (InternalError ''Can't get the input token pointer in the forward function.'',
                      m', w')))"
proof (intro conjI impI)
  assume granted: "cpu_alloc e (sint (seq_len c) * 4)"
  let ?b = "next_buffer w"
  let ?t = "(new_Tensor kDataTypeInt32 [seq_len c])\<lparr>buffer := Some (HostBuffer ?b)\<rparr>"
  let ?cells = "replicate (nat (sint (seq_len c))) (0 :: cell)"
  note tb = init_mem_token_buffer [OF assms granted]
  from tb(3) obtain ie where ie: "m_buffers m' kInputEmbeddings = Some ie" by blast
  have bt: "buffer ?t = Some (HostBuffer ?b)" by simp
  have len: "length ?cells = nat (sint (seq_len c))" by simp
  have over: "write_tokens w' (HostBuffer ?b) tokens = None \<and>
              (\<forall>lf start_pos. forward lf m' w' tokens start_pos = Undefined)"
    if "nat (sint (seq_len c)) < length tokens" for tokens
    using that write_tokens_overrun [OF tb(2)] forward_overrun [OF tb(1) ie bt tb(2)]
    by simp
  have inb: "write_tokens w' (HostBuffer ?b) tokens =
               Some (w'\<lparr>heap := (heap w')(?b \<mapsto> tokens @ drop (length tokens) ?cells)\<rparr>) \<and>
             (\<forall>lf start_pos.
               m_embedding_layer m' = None \<longrightarrow>
               forward lf m' w' tokens start_pos =
                 Returned (InternalError ''Create embedding layer failed in the init stage.'', m',
                           w'\<lparr>heap := (heap w')(?b \<mapsto> tokens @ drop (length tokens) ?cells)\<rparr>)) \<and>
             (\<forall>lf start_pos l l1 l2 l3.
               m_embedding_layer m' = Some l \<and>
               set_input l 0 ?t = Some l1 \<and>
               set_input l1 1 (new_Tensor kDataTypeInt32 [of_nat (length tokens)]) = Some l2 \<and>
               set_output l2 0 ie = Some l3 \<longrightarrow>
               forward lf m' w' tokens start_pos =
                 (case lf l3 (w'\<lparr>heap := (heap w')(?b \<mapsto> tokens @ drop (length tokens) ?cells)\<rparr>) of
                    Fatal \<Rightarrow> Fatal
                  | Undefined \<Rightarrow> Undefined
                  | Returned (st, l4, w2) \<Rightarrow>
                      Returned (if status_ok st then Success
                                else st\<lparr>err_msg := ''The embedding layer forward failed: '' @
                                                    err_msg st\<rparr>,
                                m'\<lparr>m_embedding_layer := Some l4\<rparr>, w2)))"
    if le: "length tokens \<le> nat (sint (seq_len c))" for tokens
  proof -
    from le have le': "length tokens \<le> length ?cells" by simp
    have 1: "write_tokens w' (HostBuffer ?b) tokens =
               Some (w'\<lparr>heap := (heap w')(?b \<mapsto> tokens @ drop (length tokens) ?cells)\<rparr>)"
      by (rule write_tokens_stores [OF tb(2) le'])
    have 2: "forward lf m' w' tokens start_pos =
                 Returned (InternalError ''Create embedding layer failed in the init stage.'', m',
                           w'\<lparr>heap := (heap w')(?b \<mapsto> tokens @ drop (length tokens) ?cells)\<rparr>)"
      if "m_embedding_layer m' = None" for lf start_pos
      by (rule forward_no_layer_after_store [OF tb(1) ie bt tb(2) le' that])
    have 3: "forward lf m' w' tokens start_pos =
                 (case lf l3 (w'\<lparr>heap := (heap w')(?b \<mapsto> tokens @ drop (length tokens) ?cells)\<rparr>) of
                    Fatal \<Rightarrow> Fatal
                  | Undefined \<Rightarrow> Undefined
                  | Returned (st, l4, w2) \<Rightarrow>
                      Returned (if status_ok st then Success
                                else st\<lparr>err_msg := ''The embedding layer forward failed: '' @
                                                    err_msg st\<rparr>,
                                m'\<lparr>m_embedding_layer := Some l4\<rparr>, w2))"
      if "m_embedding_layer m' = Some l" "set_input l 0 ?t = Some l1"
         "set_input l1 1 (new_Tensor kDataTypeInt32 [of_nat (length tokens)]) = Some l2"
         "set_output l2 0 ie = Some l3" for lf start_pos l l1 l2 l3
      by (rule forward_runs_layer_on_stored_tokens [OF tb(1) ie bt tb(2) le' that])
    from 1 2 3 show ?thesis by blast
  qed
  from tb(1) ie tb(2) len over inb
  show "\<exists>b cells ie.
         m_buffers m' kInputTokens =
           Some ((new_Tensor kDataTypeInt32 [seq_len c])\<lparr>buffer := Some (HostBuffer b)\<rparr>) \<and>
         m_buffers m' kInputEmbeddings = Some ie \<and>
         heap w' b = Some cells \<and>
         length cells = nat (sint (seq_len c)) \<and>
         (\<forall>tokens. nat (sint (seq_len c)) < length tokens \<longrightarrow>
            write_tokens w' (HostBuffer b) tokens = None \<and>
            (\<forall>lf start_pos. forward lf m' w' tokens start_pos = Undefined)) \<and>
         (\<forall>tokens. length tokens \<le> nat (sint (seq_len c)) \<longrightarrow>
            write_tokens w' (HostBuffer b) tokens =
              Some (w'\<lparr>heap := (heap w')(b \<mapsto> tokens @ drop (length tokens) cells)\<rparr>) \<and>
            (\<forall>lf start_pos.
               m_embedding_layer m' = None \<longrightarrow>
               forward lf m' w' tokens start_pos =
                 Returned (InternalError ''Create embedding layer failed in the init stage.'', m',
                           w'\<lparr>heap := (heap w')(b \<mapsto> tokens @ drop (length tokens) cells)\<rparr>)) \<and>
            (\<forall>lf start_pos l l1 l2 l3.
               m_embedding_layer m' = Some l \<and>
               set_input l 0 ((new_Tensor kDataTypeInt32 [seq_len c])
                                \<lparr>buffer := Some (HostBuffer b)\<rparr>) = Some l1 \<and>
               set_input l1 1 (new_Tensor kDataTypeInt32 [of_nat (length tokens)]) = Some l2 \<and>
               set_output l2 0 ie = Some l3 \<longrightarrow>
               forward lf m' w' tokens start_pos =
                 (case lf l3 (w'\<lparr>heap := (heap w')(b \<mapsto> tokens @ drop (length tokens) cells)\<rparr>) of
                    Fatal \<Rightarrow> Fatal
                  | Undefined \<Rightarrow> Undefined
                  | Returned (st, l4, w2) \<Rightarrow>
                      Returned (if status_ok st then Success
                                else st\<lparr>err_msg := ''The embedding layer forward failed: '' @
                                                    err_msg st\<rparr>,
                                m'\<lparr>m_embedding_layer := Some l4\<rparr>, w2))))"
    by (intro exI [of _ ?b] exI [of _ ?cells] exI [of _ ie]) blast
next
  assume refused: "\<not> cpu_alloc e (sint (seq_len c) * 4)"
  note ua = init_mem_unallocated [OF assms refused]
  show "m_buffers m' kInputTokens = Some (new_Tensor kDataTypeInt32 [seq_len c])"
    by (rule ua(1))
  from ua(2) obtain ie where ie: "m_buffers m' kInputEmbeddings = Some ie" by blast
  have "buffer (new_Tensor kDataTypeInt32 [seq_len c]) = None"
    by (simp add: new_Tensor_def)
  from forward_unallocated [OF ua(1) ie this]
  show "\<forall>lf tokens start_pos.
          forward lf m' w' tokens start_pos =
            Returned (InternalError ''Can't get the input token pointer in the forward function.'',
                      m', w')"
    by blast
qed

text \<open>
  C10, witness: with \<open>seq_len = 8\<close> and the allocation granted, tokens 3 and 7 land in
  the first two cells and nine tokens overrun the block; with the allocation refused, nine
  tokens give \<open>InternalError\<close> and an unchanged world.
\<close>

theorem forward_token_buffer_capacity_witness:
  "cpu_alloc example_env (sint (seq_len example_config) * 4) \<and>
   \<not> cpu_alloc refusing_env (sint (seq_len example_config) * 4) \<and>
   forward ok_layer_forward ready_model ready_world [3, 7] 0 =
     Returned (Success,
               ready_model\<lparr>m_embedding_layer :=
                 Some (example_layer\<lparr>inputs := [example_input_tokens,
                                                  new_Tensor kDataTypeInt32 [2]],
                                       outputs := [example_input_embeddings]\<rparr>)\<rparr>,
               ready_world\<lparr>heap := (heap ready_world)(0 \<mapsto> [3, 7] @ replicate 6 0)\<rparr>) \<and>
   forward ok_layer_forward ready_model ready_world [1, 2, 3, 4, 5, 6, 7, 8, 9] 0 = Undefined \<and>
   forward ok_layer_forward unallocated_model loaded_world [1, 2, 3, 4, 5, 6, 7, 8, 9] 0 =
     Returned (InternalError ''Can't get the input token pointer in the forward function.'',
               unallocated_model, loaded_world)"
proof -
  let ?l1 = "example_layer\<lparr>inputs := [example_input_tokens, empty_Tensor]\<rparr>"
  let ?l2 = "example_layer\<lparr>inputs := [example_input_tokens, new_Tensor kDataTypeInt32 [2]]\<rparr>"
  let ?l3 = "example_layer\<lparr>inputs := [example_input_tokens, new_Tensor kDataTypeInt32 [2]],
                           outputs := [example_input_embeddings]\<rparr>"
  have cfg: "m_config loaded_model = Some example_config"
    by (simp add: loaded_model_def)
  have granted: "cpu_alloc example_env (sint (seq_len example_config) * 4)"
    by (simp add: example_env_def)
  have refused: "\<not> cpu_alloc refusing_env (sint (seq_len example_config) * 4)"
    by (simp add: refusing_env_def example_env_def)
  from forward_token_buffer_capacity [OF cfg init_mem_example] granted
  obtain b cells ie where
    t: "m_buffers ready_model kInputTokens =
          Some ((new_Tensor kDataTypeInt32 [seq_len example_config])
                  \<lparr>buffer := Some (HostBuffer b)\<rparr>)"
    and e: "m_buffers ready_model kInputEmbeddings = Some ie"
    and h: "heap ready_world b = Some cells"
    and over: "\<forall>tokens. nat (sint (seq_len example_config)) < length tokens \<longrightarrow>
            write_tokens ready_world (HostBuffer b) tokens = None \<and>
            (\<forall>lf start_pos. forward lf ready_model ready_world tokens start_pos = Undefined)"
    and inb: "\<forall>tokens. length tokens \<le> nat (sint (seq_len example_config)) \<longrightarrow>
            write_tokens ready_world (HostBuffer b) tokens =
              Some (ready_world\<lparr>heap := (heap ready_world)
                                   (b \<mapsto> tokens @ drop (length tokens) cells)\<rparr>) \<and>
            (\<forall>lf start_pos.
               m_embedding_layer ready_model = None \<longrightarrow>
               forward lf ready_model ready_world tokens start_pos =
                 Returned (InternalError ''Create embedding layer failed in the init stage.'',
                           ready_model,
                           ready_world\<lparr>heap := (heap ready_world)
                                   (b \<mapsto> tokens @ drop (length tokens) cells)\<rparr>)) \<and>
            (\<forall>lf start_pos l l1 l2 l3.
               m_embedding_layer ready_model = Some l \<and>
               set_input l 0 ((new_Tensor kDataTypeInt32 [seq_len example_config])
                                \<lparr>buffer := Some (HostBuffer b)\<rparr>) = Some l1 \<and>
               set_input l1 1 (new_Tensor kDataTypeInt32 [of_nat (length tokens)]) = Some l2 \<and>
               set_output l2 0 ie = Some l3 \<longrightarrow>
               forward lf ready_model ready_world tokens start_pos =
                 (case lf l3 (ready_world\<lparr>heap := (heap ready_world)
                                   (b \<mapsto> tokens @ drop (length tokens) cells)\<rparr>) of
                    Fatal \<Rightarrow> Fatal
                  | Undefined \<Rightarrow> Undefined
                  | Returned (st, l4, w2) \<Rightarrow>
                      Returned (if status_ok st then Success
                                else st\<lparr>err_msg := ''The embedding layer forward failed: '' @
                                                    err_msg st\<rparr>,
                                ready_model\<lparr>m_embedding_layer := Some l4\<rparr>, w2)))"
    by blast
  from t have b: "b = 0"
    by (simp add: ready_model_def example_input_tokens_def new_Tensor_def)
  from t b have tt: "(new_Tensor kDataTypeInt32 [seq_len example_config])
                  \<lparr>buffer := Some (HostBuffer b)\<rparr> = example_input_tokens"
    by (simp add: ready_model_def)
  from e have ie: "ie = example_input_embeddings"
    by (simp add: ready_model_def)
  from h b have cells: "cells = replicate 8 0"
    by (simp add: ready_world_def)
  have l: "m_embedding_layer ready_model = Some example_layer"
    by (simp add: ready_model_def loaded_model_def)
  have s1: "set_input example_layer 0 example_input_tokens = Some ?l1"
    by (simp add: set_input_def example_layer_def)
  have s2: "set_input ?l1 1 (new_Tensor kDataTypeInt32 [of_nat (length [3 :: int32, 7])])
              = Some ?l2"
    by (simp add: set_input_def example_layer_def)
  have s3: "set_output ?l2 0 example_input_embeddings = Some ?l3"
    by (simp add: set_output_def example_layer_def)
  have le: "length [3 :: int32, 7] \<le> nat (sint (seq_len example_config))"
    by (simp add: example_config_def)
  from inb le have "\<forall>lf start_pos l l1 l2 l3.
               m_embedding_layer ready_model = Some l \<and>
               set_input l 0 ((new_Tensor kDataTypeInt32 [seq_len example_config])
                                \<lparr>buffer := Some (HostBuffer b)\<rparr>) = Some l1 \<and>
               set_input l1 1 (new_Tensor kDataTypeInt32 [of_nat (length [3 :: int32, 7])]) = Some l2 \<and>
               set_output l2 0 ie = Some l3 \<longrightarrow>
               forward lf ready_model ready_world [3, 7] start_pos =
                 (case lf l3 (ready_world\<lparr>heap := (heap ready_world)
                                   (b \<mapsto> [3, 7] @ drop (length [3 :: int32, 7]) cells)\<rparr>) of
                    Fatal \<Rightarrow> Fatal
                  | Undefined \<Rightarrow> Undefined
                  | Returned (st, l4, w2) \<Rightarrow>
                      Returned (if status_ok st then Success
                                else st\<lparr>err_msg := ''The embedding layer forward failed: '' @
                                                    err_msg st\<rparr>,
                                ready_model\<lparr>m_embedding_layer := Some l4\<rparr>, w2))"
    by blast
  with l s1 s2 s3 tt ie
  have "forward ok_layer_forward ready_model ready_world [3, 7] 0 =
                 (case ok_layer_forward ?l3 (ready_world\<lparr>heap := (heap ready_world)
                                   (b \<mapsto> [3, 7] @ drop (length [3 :: int32, 7]) cells)\<rparr>) of
                    Fatal \<Rightarrow> Fatal
                  | Undefined \<Rightarrow> Undefined
                  | Returned (st, l4, w2) \<Rightarrow>
                      Returned (if status_ok st then Success
                                else st\<lparr>err_msg := ''The embedding layer forward failed: '' @
                                                    err_msg st\<rparr>,
                                ready_model\<lparr>m_embedding_layer := Some l4\<rparr>, w2))"
    by simp
  then have 1: "forward ok_layer_forward ready_model ready_world [3, 7] 0 =
     Returned (Success, ready_model\<lparr>m_embedding_layer := Some ?l3\<rparr>,
               ready_world\<lparr>heap := (heap ready_world)(0 \<mapsto> [3, 7] @ replicate 6 0)\<rparr>)"
    by (simp add: ok_layer_forward_def status_defs b cells)
  have 2: "forward ok_layer_forward ready_model ready_world [1, 2, 3, 4, 5, 6, 7, 8, 9] 0
             = Undefined"
    using over by (simp add: example_config_def)
  from forward_token_buffer_capacity [OF cfg init_mem_refused_example] refused
  have 3: "forward ok_layer_forward unallocated_model loaded_world [1, 2, 3, 4, 5, 6, 7, 8, 9] 0 =
     Returned (InternalError ''Can't get the input token pointer in the forward function.'',
               unallocated_model, loaded_world)"
    by blast
  from granted refused 1 2 3 show ?thesis by blast
qed

text \<open>
  C10, counterexample to the claim as stated: \<open>init\<close> succeeds although the allocator
  refuses the token buffer; the registered tensor then has no buffer at all, and
  \<open>forward\<close> on nine tokens (\<open>seq_len = 8\<close>) returns \<open>InternalError\<close> without writing.
\<close>

theorem forward_refused_allocation_no_overrun:
  "init refusing_env example_model example_world kDeviceCPU =
     Returned (Success, unallocated_model, loaded_world) \<and>
   map_option seq_len (m_config unallocated_model) = Some 8 \<and>
   map_option buffer (m_buffers unallocated_model kInputTokens) = Some None \<and>
   forward ok_layer_forward unallocated_model loaded_world [1, 2, 3, 4, 5, 6, 7, 8, 9] 0 =
     Returned (InternalError ''Can't get the input token pointer in the forward function.'',
               unallocated_model, loaded_world)"
  by (simp add: init_refused_example unallocated_model_def loaded_model_def example_config_def
      new_Tensor_def forward_def get_buffer_def tensor_ptr_def)

end
